theory Spec2Isabelle
  imports Main
begin

section \<open>Data model\<close>

text \<open>
  A JavaScript \<open>number\<close> as far as this program uses one: the ids are array lengths plus
  one and results of \<open>parseInt\<close>, so a number is an integer, an infinity or \<open>NaN\<close>.
  \<open>-0\<close> is \<open>0\<close>, which is how \<open>===\<close> and \<open>!==\<close> treat it. Which integers are doubles
  is the business of \<open>to_number\<close> below; the type holds them all.
\<close>

datatype number = NaN | Num int | PosInfinity | NegInfinity

text \<open>\<open>a === b\<close> and \<open>a !== b\<close> on numbers: \<open>NaN\<close> is not equal to anything, itself included.\<close>

fun strict_eq :: "number \<Rightarrow> number \<Rightarrow> bool" where
  "strict_eq (Num a) (Num b) = (a = b)"
| "strict_eq PosInfinity PosInfinity = True"
| "strict_eq NegInfinity NegInfinity = True"
| "strict_eq _ _ = False"

definition strict_neq :: "number \<Rightarrow> number \<Rightarrow> bool" where
  "strict_neq a b = (\<not> strict_eq a b)"

definition isNaN :: "number \<Rightarrow> bool" where
  "isNaN n = (case n of NaN \<Rightarrow> True | _ \<Rightarrow> False)"

text \<open>
  \<^verbatim>\<open>interface Todo { id: number; text: string; completed: boolean; }\<close>
  The fields \<open>id\<close> and \<open>text\<close> carry a suffix, since both names are taken in Isabelle.
\<close>

record Todo =
  id_field :: number
  text_field :: string
  completed :: bool

text \<open>The module-level array \<open>todosData\<close> is the state; its initial value is the seed.\<close>

type_synonym store = "Todo list"

definition todosData :: store where
  "todosData =
    [\<lparr>id_field = Num 1, text_field = ''Learn Kung Fu'', completed = False\<rparr>,
     \<lparr>id_field = Num 2, text_field = ''Watch Westminster'', completed = True\<rparr>,
     \<lparr>id_field = Num 3, text_field = ''Study Vedanta'', completed = False\<rparr>]"

text \<open>
  How a promise settles. The executors of the store only ever call \<open>resolve\<close>; the other
  outcome exists so that "cannot fail" is a statement about the functions and not about
  the type.
\<close>

datatype 'a settled = Resolved 'a | Rejected string

section \<open>The store operations\<close>

text \<open>
  Each operation does its work in one timer callback, which runs to completion, so an
  operation is a function from the array before the callback to the settled value and
  the array after it. The delay of 100 ms is not modelled, and an array is a list of any
  length (the limit of \<open>2^32 - 1\<close> elements is out of reach).
\<close>

definition getTodos :: "store \<Rightarrow> Todo list settled \<times> store" where
  "getTodos s = (Resolved s, s)"

definition deleteTodo :: "number \<Rightarrow> store \<Rightarrow> bool settled \<times> store" where
  "deleteTodo i s = (Resolved True, filter (\<lambda>todo. strict_neq (id_field todo) i) s)"

definition addTodo :: "string \<Rightarrow> store \<Rightarrow> Todo settled \<times> store" where
  "addTodo txt s =
    (let newTodo = \<lparr>id_field = Num (int (length s) + 1), text_field = txt, completed = False\<rparr>
     in (Resolved newTodo, s @ [newTodo]))"

text \<open>Sequences of calls on the store, run from left to right.\<close>

datatype store_op = List_op | Add_op string | Delete_op number

fun exec_op :: "store \<Rightarrow> store_op \<Rightarrow> store" where
  "exec_op s List_op = snd (getTodos s)"
| "exec_op s (Add_op txt) = snd (addTodo txt s)"
| "exec_op s (Delete_op i) = snd (deleteTodo i s)"

definition run_ops :: "store_op list \<Rightarrow> store \<Rightarrow> store" where
  "run_ops ops s = foldl exec_op s ops"

section \<open>The HTTP handler\<close>

text \<open>
  The id parameter is a JavaScript string: a sequence of UTF-16 code units, here natural
  numbers. \<open>utf16\<close> gives the code units of a text of characters below 256, each of which
  is one code unit of the same number.
\<close>

type_synonym code_unit = nat

type_synonym js_string = "code_unit list"

definition utf16 :: "string \<Rightarrow> js_string" where
  "utf16 cs = map of_char cs"

text \<open>
  The number value of an integer: the nearest double, a tie going to the even significand
  of 53 bits, and an infinity when the rounded magnitude reaches \<open>2^1024\<close>. \<open>round_double\<close>
  rounds the magnitude and gives \<open>None\<close> for the overflow.
\<close>

fun bit_length :: "nat \<Rightarrow> nat" where
  "bit_length n = (if n = 0 then 0 else Suc (bit_length (n div 2)))"

declare bit_length.simps [simp del]

definition round_double :: "nat \<Rightarrow> nat option" where
  "round_double m =
    (if m < 2 ^ 53 then Some m
     else
       let shift = bit_length m - 53;
           q = m div 2 ^ shift;
           r = m mod 2 ^ shift;
           half = 2 ^ (shift - 1);
           q' = (if half < r \<or> (r = half \<and> odd q) then q + 1 else q);
           v = q' * 2 ^ shift
       in if 2 ^ 1024 \<le> v then None else Some v)"

definition to_number :: "int \<Rightarrow> number" where
  "to_number i =
    (case round_double (nat \<bar>i\<bar>) of
       None \<Rightarrow> if i < 0 then NegInfinity else PosInfinity
     | Some v \<Rightarrow> Num (if i < 0 then - int v else int v))"

text \<open>
  \<open>parseInt(string, 10)\<close> after ECMAScript: leading white space and line terminators are
  dropped, one sign is read, then the longest run of decimal digits; no digit gives
  \<open>NaN\<close>, and otherwise the result is the number value of the signed integer the digits
  denote. (The standard lets an implementation read the digits after the twentieth as
  zeros; V8, on which the handler runs, rounds the whole integer, and so does this.)
\<close>

definition is_white_space :: "code_unit \<Rightarrow> bool" where
  "is_white_space c =
    (c \<in> {9, 10, 11, 12, 13, 32, 160, 5760, 8232, 8233, 8239, 8287, 12288, 65279}
     \<or> (8192 \<le> c \<and> c \<le> 8202))"

definition is_digit :: "code_unit \<Rightarrow> bool" where
  "is_digit c = (48 \<le> c \<and> c \<le> 57)"

definition digit_val :: "code_unit \<Rightarrow> int" where
  "digit_val c = int c - 48"

definition digits_val :: "js_string \<Rightarrow> int" where
  "digits_val z = foldl (\<lambda>acc c. acc * 10 + digit_val c) 0 z"

fun strip_sign :: "js_string \<Rightarrow> int \<times> js_string" where
  "strip_sign [] = (1, [])"
| "strip_sign (c # cs) =
    (if c = 45 then (- 1, cs) else if c = 43 then (1, cs) else (1, c # cs))"

definition parseInt :: "js_string \<Rightarrow> number" where
  "parseInt str =
    (let (sign, s) = strip_sign (dropWhile is_white_space str);
         z = takeWhile is_digit s
     in if z = [] then NaN else to_number (sign * digits_val z))"

text \<open>
  \<open>new Response(null, { status, statusText })\<close>: the body is \<open>null\<close>, and a status text that
  is not given is the empty string.
\<close>

record Response =
  status :: nat
  statusText :: string
  body :: "string option"

text \<open>
  \<^verbatim>\<open>export async function DELETE({ params }: APIContext): Promise<Response>\<close>
  \<open>params.id\<close> is a string or undefined, and \<open>params.id || ''\<close> turns undefined (and the
  empty string) into the empty string. The handler is written over the \<open>deleteTodo\<close> it
  imports; \<open>await\<close> passes a rejection on as the handler's own.
\<close>

definition or_empty :: "js_string option \<Rightarrow> js_string" where
  "or_empty p = (case p of None \<Rightarrow> [] | Some v \<Rightarrow> if v = [] then [] else v)"

definition DELETE_with ::
  "(number \<Rightarrow> 's \<Rightarrow> bool settled \<times> 's) \<Rightarrow> js_string option \<Rightarrow> 's \<Rightarrow> Response settled \<times> 's" where
  "DELETE_with del params_id s =
    (let i = parseInt (or_empty params_id) in
     if isNaN i then
       (Resolved \<lparr>status = 400, statusText = ''Invalid ID'', body = None\<rparr>, s)
     else
       (case del i s of
          (Rejected e, s') \<Rightarrow> (Rejected e, s')
        | (Resolved _, s') \<Rightarrow> (Resolved \<lparr>status = 200, statusText = [], body = None\<rparr>, s')))"

definition DELETE :: "js_string option \<Rightarrow> store \<Rightarrow> Response settled \<times> store" where
  "DELETE = DELETE_with deleteTodo"

section \<open>Predicates on the store\<close>

text \<open>Every id in the array is an integer above zero.\<close>

definition ids_positive :: "store \<Rightarrow> bool" where
  "ids_positive s = list_all (\<lambda>todo. case id_field todo of Num n \<Rightarrow> 0 < n | _ \<Rightarrow> False) s"

text \<open>No record has the empty text, and an operation that does not add the empty text.\<close>

definition texts_nonempty :: "store \<Rightarrow> bool" where
  "texts_nonempty s = list_all (\<lambda>todo. text_field todo \<noteq> []) s"

fun nonempty_add :: "store_op \<Rightarrow> bool" where
  "nonempty_add (Add_op txt) = (txt \<noteq> [])"
| "nonempty_add _ = True"

section \<open>Properties\<close>

lemmas parse_defs = parseInt_def is_white_space_def is_digit_def digit_val_def digits_val_def
  or_empty_def utf16_def to_number_def round_double_def

lemma strict_neq_Num: "strict_neq a (Num n) = (a \<noteq> Num n)"
  by (cases a) (simp_all add: strict_neq_def)

lemma strict_eq_NaN: "strict_eq a NaN = False"
  by (cases a) simp_all

subsection \<open>The store\<close>

text \<open>
  C5: \<open>getTodos\<close> resolves to the whole array as it is, in its order, and leaves it as it
  was; after an \<open>addTodo\<close> the earlier records come first and the new one last; on the
  seed it resolves to the three seed records in their order.
\<close>

theorem getTodos_returns_store:
  "getTodos s = (Resolved s, s)
   \<and> fst (getTodos (snd (addTodo txt s))) = Resolved (s @ [\<lparr>id_field = Num (int (length s) + 1), text_field = txt, completed = False\<rparr>])
   \<and> getTodos todosData =
       (Resolved [\<lparr>id_field = Num 1, text_field = ''Learn Kung Fu'', completed = False\<rparr>,
                  \<lparr>id_field = Num 2, text_field = ''Watch Westminster'', completed = True\<rparr>,
                  \<lparr>id_field = Num 3, text_field = ''Study Vedanta'', completed = False\<rparr>], todosData)"
  by (simp add: getTodos_def addTodo_def Let_def todosData_def)

text \<open>
  C2: \<open>addTodo\<close> builds a record with \<open>completed = false\<close> and the id "length of the array
  plus one", appends it at the end and resolves to that same record, for every text; the
  empty text is stored like any other.
\<close>

theorem addTodo_appends_created:
  "fst (addTodo txt s) = Resolved \<lparr>id_field = Num (int (length s) + 1), text_field = txt, completed = False\<rparr>
   \<and> snd (addTodo txt s) = s @ [\<lparr>id_field = Num (int (length s) + 1), text_field = txt, completed = False\<rparr>]
   \<and> addTodo [] s = (Resolved \<lparr>id_field = Num (int (length s) + 1), text_field = [], completed = False\<rparr>,
                      s @ [\<lparr>id_field = Num (int (length s) + 1), text_field = [], completed = False\<rparr>])"
  by (simp add: addTodo_def Let_def)

text \<open>
  C3: \<open>deleteTodo\<close> resolves to true and leaves the array filtered to the records whose id
  is not (\<open>!==\<close>) the given one: for an integer these are the records with another id, no
  record of the result has the given id, and when no record had it the array is unchanged
  and the answer is true all the same. \<open>NaN\<close> is \<open>!==\<close> to every id, so it removes none.
\<close>

theorem deleteTodo_filters_and_resolves_true:
  "fst (deleteTodo i s) = Resolved True
   \<and> snd (deleteTodo i s) = filter (\<lambda>todo. \<not> strict_eq (id_field todo) i) s
   \<and> snd (deleteTodo (Num n) s) = filter (\<lambda>todo. id_field todo \<noteq> Num n) s
   \<and> snd (deleteTodo NaN s) = s
   \<and> (\<forall>todo \<in> set (snd (deleteTodo i s)). \<not> strict_eq (id_field todo) i)
   \<and> ((\<forall>todo \<in> set s. \<not> strict_eq (id_field todo) i) \<longrightarrow> deleteTodo i s = (Resolved True, s))"
  by (simp add: deleteTodo_def strict_neq_def strict_neq_Num [unfolded strict_neq_def] strict_eq_NaN)

theorem deleteTodo_filters_and_resolves_true_witness:
  "Num 7 \<notin> set (map id_field todosData)
   \<and> deleteTodo (Num 7) todosData = (Resolved True, todosData)
   \<and> snd (deleteTodo (Num 2) todosData) =
       [\<lparr>id_field = Num 1, text_field = ''Learn Kung Fu'', completed = False\<rparr>,
        \<lparr>id_field = Num 3, text_field = ''Study Vedanta'', completed = False\<rparr>]"
proof -
  have h: "\<forall>todo \<in> set todosData. \<not> strict_eq (id_field todo) (Num 7)"
    by (simp add: todosData_def)
  have "deleteTodo (Num 7) todosData = (Resolved True, todosData)"
    using deleteTodo_filters_and_resolves_true [of "Num 7" todosData 2] h by blast
  moreover have "snd (deleteTodo (Num 2) todosData) = filter (\<lambda>todo. id_field todo \<noteq> Num 2) todosData"
    using deleteTodo_filters_and_resolves_true [of "Num 2" todosData 2] by blast
  moreover have "Num 7 \<notin> set (map id_field todosData)"
    by (simp add: todosData_def)
  ultimately show ?thesis by (simp add: todosData_def)
qed

text \<open>
  C9: deleting the same id twice in a row leaves the array as one deletion leaves it, and
  both calls resolve to true.
\<close>

theorem deleteTodo_idempotent:
  "deleteTodo i (snd (deleteTodo i s)) = (Resolved True, snd (deleteTodo i s))
   \<and> fst (deleteTodo i s) = Resolved True"
  by (simp add: deleteTodo_def)

text \<open>
  C8: each of the three operations resolves with a value, for every array and argument,
  and none of them rejects.
\<close>

theorem store_operations_resolve:
  "(\<exists>v s'. getTodos s = (Resolved v, s'))
   \<and> (\<exists>v s'. addTodo txt s = (Resolved v, s'))
   \<and> (\<exists>v s'. deleteTodo i s = (Resolved v, s'))
   \<and> fst (getTodos s) \<noteq> Rejected e
   \<and> fst (addTodo txt s) \<noteq> Rejected e
   \<and> fst (deleteTodo i s) \<noteq> Rejected e"
  by (auto simp add: getTodos_def addTodo_def Let_def deleteTodo_def)

subsection \<open>Ids and texts in reachable states\<close>

text \<open>
  C1: from the seed, a \<open>deleteTodo\<close> followed by an \<open>addTodo\<close> gives an array with two
  records of the same id, the new record having the id "length after the deletion plus
  one".
\<close>

theorem id_collision_reachable:
  "\<exists>i txt. let s1 = snd (deleteTodo i todosData); s2 = snd (addTodo txt s1)
     in \<not> distinct (map id_field s2)
        \<and> id_field (last s2) = Num (int (length s1) + 1)
        \<and> s2 = run_ops [Delete_op i, Add_op txt] todosData"
proof -
  let ?s1 = "snd (deleteTodo (Num 1) todosData)"
  let ?s2 = "snd (addTodo ''Buy milk'' ?s1)"
  have "map id_field ?s2 = [Num 2, Num 3, Num 3]"
    by (simp add: deleteTodo_def addTodo_def Let_def todosData_def strict_neq_def)
  then have "\<not> distinct (map id_field ?s2)" by simp
  moreover have "id_field (last ?s2) = Num (int (length ?s1) + 1)"
    by (simp add: addTodo_def Let_def)
  moreover have "?s2 = run_ops [Delete_op (Num 1), Add_op ''Buy milk''] todosData"
    by (simp add: run_ops_def)
  ultimately show ?thesis unfolding Let_def by blast
qed

text \<open>
  The ids of a reachable array are integers above zero: the seed's are, \<open>addTodo\<close> gives
  a length plus one, and \<open>deleteTodo\<close> only removes records.
\<close>

lemma exec_op_ids_positive: "ids_positive s \<Longrightarrow> ids_positive (exec_op s x)"
  by (cases x) (simp_all add: ids_positive_def getTodos_def addTodo_def Let_def deleteTodo_def list_all_iff)

lemma foldl_exec_op_ids_positive: "ids_positive s \<Longrightarrow> ids_positive (foldl exec_op s ops)"
  by (induction ops arbitrary: s) (simp_all add: exec_op_ids_positive)

lemma run_ops_ids_positive: "ids_positive (run_ops ops todosData)"
  unfolding run_ops_def
  by (rule foldl_exec_op_ids_positive) (simp add: ids_positive_def todosData_def)

text \<open>
  C6: the ids of a reachable array are not always pairwise distinct: deleting id 2 from the
  seed and adding a record gives the ids 1, 3, 3.
\<close>

theorem reachable_ids_not_distinct:
  "map id_field (run_ops [Delete_op (Num 2), Add_op ''Buy milk''] todosData) = [Num 1, Num 3, Num 3]
   \<and> \<not> distinct (map id_field (run_ops [Delete_op (Num 2), Add_op ''Buy milk''] todosData))"
proof -
  have "map id_field (run_ops [Delete_op (Num 2), Add_op ''Buy milk''] todosData) = [Num 1, Num 3, Num 3]"
    by (simp add: run_ops_def deleteTodo_def addTodo_def Let_def todosData_def strict_neq_def)
  then show ?thesis by simp
qed

text \<open>
  C7, as stated, fails: adding the empty text to the seed stores a record with the empty
  text.
\<close>

theorem empty_text_reachable:
  "\<lparr>id_field = Num 4, text_field = [], completed = False\<rparr> \<in> set (run_ops [Add_op []] todosData)"
  by (simp add: run_ops_def addTodo_def Let_def todosData_def)

lemma exec_op_texts_nonempty:
  "texts_nonempty s \<Longrightarrow> nonempty_add x \<Longrightarrow> texts_nonempty (exec_op s x)"
  by (cases x) (simp_all add: texts_nonempty_def getTodos_def addTodo_def Let_def deleteTodo_def list_all_iff)

lemma foldl_exec_op_texts_nonempty:
  "texts_nonempty s \<Longrightarrow> list_all nonempty_add ops \<Longrightarrow> texts_nonempty (foldl exec_op s ops)"
proof (induction ops arbitrary: s)
  case Nil
  then show ?case by simp
next
  case (Cons x xs)
  from Cons.prems have "texts_nonempty (exec_op s x)"
    by (simp add: exec_op_texts_nonempty)
  with Cons show ?case by simp
qed

text \<open>
  C7, amended: in every array reached from the seed by calls of which every \<open>addTodo\<close> was
  given a non-empty text, every record has a non-empty text.
\<close>

theorem texts_nonempty_when_adds_nonempty:
  "list_all nonempty_add ops \<Longrightarrow> texts_nonempty (run_ops ops todosData)"
  unfolding run_ops_def
  by (rule foldl_exec_op_texts_nonempty) (simp_all add: texts_nonempty_def todosData_def)

theorem texts_nonempty_when_adds_nonempty_witness:
  "list_all nonempty_add [Add_op ''Buy milk'', Delete_op (Num 2), List_op]
   \<and> texts_nonempty (run_ops [Add_op ''Buy milk'', Delete_op (Num 2), List_op] todosData)
   \<and> map text_field (run_ops [Add_op ''Buy milk'', Delete_op (Num 2), List_op] todosData)
       = [''Learn Kung Fu'', ''Study Vedanta'', ''Buy milk'']"
proof -
  have h: "list_all nonempty_add [Add_op ''Buy milk'', Delete_op (Num 2), List_op]"
    by simp
  have "map text_field (run_ops [Add_op ''Buy milk'', Delete_op (Num 2), List_op] todosData)
       = [''Learn Kung Fu'', ''Study Vedanta'', ''Buy milk'']"
    by (simp add: run_ops_def getTodos_def deleteTodo_def addTodo_def Let_def todosData_def strict_neq_def)
  with h texts_nonempty_when_adds_nonempty [OF h] show ?thesis by simp
qed

subsection \<open>The number value of an integer\<close>

text \<open>
  \<open>bit_length m\<close> is the number of binary digits of \<open>m\<close>.
\<close>

lemma bit_length_upper: "m < 2 ^ bit_length m"
proof (induction m rule: bit_length.induct)
  case (1 n)
  show ?case
  proof (cases "n = 0")
    case True
    then show ?thesis by (simp add: bit_length.simps)
  next
    case False
    with "1" have "n div 2 < 2 ^ bit_length (n div 2)" by simp
    then have "n < 2 * 2 ^ bit_length (n div 2)" by linarith
    with False show ?thesis by (simp add: bit_length.simps [of n])
  qed
qed

lemma bit_length_lower: "0 < m \<Longrightarrow> 2 ^ (bit_length m - 1) \<le> m"
proof (induction m rule: bit_length.induct)
  case (1 n)
  then have n: "n \<noteq> 0" by simp
  show ?case
  proof (cases "n div 2 = 0")
    case True
    with n have "n = 1" by linarith
    then show ?thesis by (simp add: bit_length.simps)
  next
    case False
    with "1.IH" n have ih: "2 ^ (bit_length (n div 2) - 1) \<le> n div 2" by simp
    from False have "bit_length (n div 2) \<noteq> 0"
      by (simp add: bit_length.simps [of "n div 2"])
    then have "(2::nat) ^ bit_length (n div 2) = 2 * 2 ^ (bit_length (n div 2) - 1)"
      by (cases "bit_length (n div 2)") simp_all
    with ih have "2 ^ bit_length (n div 2) \<le> n" by linarith
    with n show ?thesis by (simp add: bit_length.simps [of n])
  qed
qed

text \<open>
  Below \<open>2^53\<close> every integer is a double; from \<open>2^1024\<close> on the number value is an
  infinity.
\<close>

lemma round_double_exact: "m < 2 ^ 53 \<Longrightarrow> round_double m = Some m"
  by (simp add: round_double_def)

lemma div_mult_lower:
  fixes m :: nat
  assumes "2 ^ (e + sh) \<le> m"
  shows "2 ^ (e + sh) \<le> (m div 2 ^ sh) * 2 ^ sh"
proof -
  from assms have "2 ^ e * 2 ^ sh \<le> m" by (simp add: power_add)
  then have "2 ^ e \<le> m div 2 ^ sh"
    by (simp add: less_eq_div_iff_mult_less_eq)
  then have "2 ^ e * 2 ^ sh \<le> (m div 2 ^ sh) * 2 ^ sh"
    by (rule mult_le_mono1)
  then show ?thesis by (simp add: power_add)
qed

lemma round_double_overflow:
  assumes "2 ^ 1024 \<le> m"
  shows "round_double m = None"
proof -
  let ?b = "bit_length m"
  let ?shift = "?b - 53"
  let ?q = "m div 2 ^ ?shift"
  have "(0::nat) < 2 ^ 1024" by (rule zero_less_power) simp
  from this assms have pos: "0 < m" by (rule less_le_trans)
  have "(2::nat) ^ 1024 < 2 ^ ?b"
    using assms bit_length_upper [of m] by (rule le_less_trans)
  then have b: "1024 < ?b" by (rule power_less_imp_less_exp [rotated]) simp
  then have split: "?b - 1 = 52 + ?shift" by simp
  have "2 ^ (?b - 1) \<le> m" using bit_length_lower [OF pos] .
  then have "2 ^ (52 + ?shift) \<le> m" by (simp only: split)
  then have "2 ^ (52 + ?shift) \<le> ?q * 2 ^ ?shift" by (rule div_mult_lower)
  then have "2 ^ (?b - 1) \<le> ?q * 2 ^ ?shift" by (simp only: split)
  moreover have "(2::nat) ^ 1024 \<le> 2 ^ (?b - 1)"
    using b by (intro power_increasing) simp_all
  ultimately have q: "2 ^ 1024 \<le> ?q * 2 ^ ?shift"
    by (rule order_trans [rotated])
  have "?q * 2 ^ ?shift \<le> (?q + 1) * 2 ^ ?shift" by simp
  with q have q1: "2 ^ 1024 \<le> (?q + 1) * 2 ^ ?shift" by (rule order_trans)
  have "(2::nat) ^ 53 \<le> 2 ^ 1024" by (intro power_increasing) simp_all
  with assms have "2 ^ 53 \<le> m" by (rule order_trans [rotated])
  then have "\<not> m < 2 ^ 53" by (simp only: not_less)
  with q q1 show ?thesis
    by (simp add: round_double_def Let_def)
qed

lemma to_number_exact: "\<bar>i\<bar> < 2 ^ 53 \<Longrightarrow> to_number i = Num i"
proof -
  assume a: "\<bar>i\<bar> < 2 ^ 53"
  then have "nat \<bar>i\<bar> < 2 ^ 53" by (simp add: nat_less_iff)
  then have "round_double (nat \<bar>i\<bar>) = Some (nat \<bar>i\<bar>)" by (rule round_double_exact)
  then show ?thesis by (simp add: to_number_def)
qed

lemma to_number_overflow:
  "2 ^ 1024 \<le> i \<Longrightarrow> to_number i = PosInfinity"
  "i \<le> - (2 ^ 1024) \<Longrightarrow> to_number i = NegInfinity"
proof -
  assume a: "2 ^ 1024 \<le> i"
  then have "2 ^ 1024 \<le> nat \<bar>i\<bar>" by (simp add: le_nat_iff)
  then have "round_double (nat \<bar>i\<bar>) = None" by (rule round_double_overflow)
  with a show "to_number i = PosInfinity" by (simp add: to_number_def)
next
  assume a: "i \<le> - (2 ^ 1024)"
  then have "2 ^ 1024 \<le> nat \<bar>i\<bar>" by (simp add: le_nat_iff)
  then have "round_double (nat \<bar>i\<bar>) = None" by (rule round_double_overflow)
  with a show "to_number i = NegInfinity" by (simp add: to_number_def)
qed

text \<open>
  In between, the result is a multiple of the unit in the last place with a significand
  of 53 bits, it is no further from the integer than half a unit, and at exactly half a
  unit the significand is even.
\<close>

lemma round_double_nearest:
  assumes big: "2 ^ 53 \<le> m" and res: "round_double m = Some v"
  defines "ulp \<equiv> 2 ^ (bit_length m - 53)"
  shows "ulp dvd v"
    and "2 ^ 52 * ulp \<le> v" and "v \<le> 2 ^ 53 * ulp"
    and "2 * m \<le> 2 * v + ulp" and "2 * v \<le> 2 * m + ulp"
    and "2 * m = 2 * v + ulp \<or> 2 * v = 2 * m + ulp \<Longrightarrow> even (v div ulp)"
proof -
  define sh where "sh = bit_length m - 53"
  define q where "q = m div 2 ^ sh"
  define r where "r = m mod 2 ^ sh"
  define h :: nat where "h = 2 ^ (sh - 1)"
  have ulp: "ulp = 2 ^ sh" by (simp add: ulp_def sh_def)
  have "(0::nat) < 2 ^ 53" by (rule zero_less_power) simp
  from this big have pos: "0 < m" by (rule less_le_trans)
  have "(2::nat) ^ 53 < 2 ^ bit_length m"
    using big bit_length_upper [of m] by (rule le_less_trans)
  then have b: "53 < bit_length m" by (rule power_less_imp_less_exp [rotated]) simp
  then have sh_pos: "0 < sh" and split: "bit_length m - 1 = 52 + sh" and split': "bit_length m = 53 + sh"
    by (simp_all add: sh_def)
  from sh_pos have "(2::nat) ^ sh = 2 ^ Suc (sh - 1)" by simp
  then have ulp_h: "ulp = 2 * h" by (simp only: ulp h_def power_Suc)
  have m: "m = q * ulp + r" by (simp only: q_def r_def ulp div_mult_mod_eq)
  have r: "r < ulp" by (simp add: r_def ulp)
  have "2 ^ (52 + sh) \<le> m" using bit_length_lower [OF pos] by (simp only: split)
  then have "2 ^ (52 + sh) \<le> q * 2 ^ sh" unfolding q_def by (rule div_mult_lower)
  then have lo: "2 ^ 52 * ulp \<le> q * ulp" by (simp only: ulp power_add)
  have "m < 2 ^ 53 * 2 ^ sh" using bit_length_upper [of m] by (simp only: split' power_add)
  then have "q < 2 ^ 53" unfolding q_def by (simp only: less_mult_imp_div_less)
  then have "q + 1 \<le> 2 ^ 53" by (simp only: Suc_eq_plus1 [symmetric] Suc_le_eq)
  then have hi1: "(q + 1) * ulp \<le> 2 ^ 53 * ulp" by (rule mult_le_mono1)
  have "q * ulp \<le> (q + 1) * ulp" by simp
  from this hi1 have hi0: "q * ulp \<le> 2 ^ 53 * ulp" by (rule order_trans)
  from lo have lo1: "2 ^ 52 * ulp \<le> (q + 1) * ulp" by (simp only: add_mult_distrib trans_le_add1)
  have up: "(q + 1) * ulp = q * ulp + ulp" by (simp add: add_mult_distrib)
  have not_small: "\<not> m < 2 ^ 53" using big by (simp only: not_less)
  have "round_double m =
      (if 2 ^ 1024 \<le> (if h < r \<or> (r = h \<and> odd q) then q + 1 else q) * ulp then None
       else Some ((if h < r \<or> (r = h \<and> odd q) then q + 1 else q) * ulp))"
    using not_small by (simp add: round_double_def Let_def q_def r_def h_def ulp sh_def)
  with res have v: "v = (if h < r \<or> (r = h \<and> odd q) then q + 1 else q) * ulp"
    by (auto split: if_splits)
  show "ulp dvd v" by (simp add: v)
  show "2 ^ 52 * ulp \<le> v" using lo lo1 by (simp only: v split: if_splits) simp
  show "v \<le> 2 ^ 53 * ulp" using hi0 hi1 by (simp only: v split: if_splits) simp
  have ulp_pos: "0 < ulp" by (simp add: ulp)
  have vq: "v = q * ulp \<or> v = q * ulp + ulp" by (simp add: v)
  show "2 * m \<le> 2 * v + ulp"
    using m r ulp_h up by (simp only: v split: if_splits) auto
  show "2 * v \<le> 2 * m + ulp"
    using m r ulp_h up by (simp only: v split: if_splits) auto
  assume tie: "2 * m = 2 * v + ulp \<or> 2 * v = 2 * m + ulp"
  show "even (v div ulp)"
  proof (cases "h < r \<or> (r = h \<and> odd q)")
    case True
    then have v': "v = q * ulp + ulp" unfolding v up [symmetric] by auto
    with tie m ulp_h r have "r = h" by auto
    with True have "odd q" by simp
    moreover have "v div ulp = q + 1" using ulp_pos by (simp add: v' up [symmetric])
    ultimately show ?thesis by simp
  next
    case False
    then have v': "v = q * ulp" unfolding v by auto
    with tie m ulp_h r have "r = h" by auto
    with False have "even q" by simp
    moreover have "v div ulp = q" using ulp_pos by (simp add: v')
    ultimately show ?thesis by simp
  qed
qed

subsection \<open>What parseInt reads\<close>

text \<open>
  The code units that \<open>parseInt\<close> skips and the ones it reads as digits, as sets; white
  space in front changes nothing; a run of digits, with or without a sign, is read up to
  the first code unit that is no digit; and without a digit in that place the result is
  \<open>NaN\<close>.
\<close>

lemma is_white_space_iff:
  "is_white_space c \<longleftrightarrow>
     c \<in> {9, 10, 11, 12, 13, 32, 160, 5760} \<union> {8192..8202} \<union> {8232, 8233, 8239, 8287, 12288, 65279}"
  by (auto simp add: is_white_space_def)

lemma is_digit_iff: "is_digit c \<longleftrightarrow> c \<in> {48..57}"
  by (auto simp add: is_digit_def)

lemma digit_not_white_nor_sign: "is_digit c \<Longrightarrow> \<not> is_white_space c \<and> c \<noteq> 43 \<and> c \<noteq> 45"
  by (auto simp add: is_digit_def is_white_space_def)

lemma takeWhile_digits_run:
  assumes "\<forall>c \<in> set ds. is_digit c" and "rest = [] \<or> \<not> is_digit (hd rest)"
  shows "takeWhile is_digit (ds @ rest) = ds"
proof -
  from assms(2) have "takeWhile is_digit rest = []"
    by (cases rest) auto
  with assms(1) show ?thesis by simp
qed

lemma parseInt_after_white_space:
  assumes "\<forall>c \<in> set ws. is_white_space c"
  shows "parseInt (ws @ str) = parseInt str"
  using assms by (simp add: parseInt_def)

lemma parseInt_digits:
  assumes ds: "ds \<noteq> []" "\<forall>c \<in> set ds. is_digit c"
    and rest: "rest = [] \<or> \<not> is_digit (hd rest)"
  shows "parseInt (ds @ rest) = to_number (digits_val ds)"
    and "parseInt (43 # ds @ rest) = to_number (digits_val ds)"
    and "parseInt (45 # ds @ rest) = to_number (- digits_val ds)"
proof -
  from ds obtain d ds' where d: "ds = d # ds'" "is_digit d"
    by (cases ds) auto
  note run = takeWhile_digits_run [OF ds(2) rest]
  from d digit_not_white_nor_sign [of d] run ds(1)
  show "parseInt (ds @ rest) = to_number (digits_val ds)"
    by (simp add: parseInt_def)
  from run ds(1) show "parseInt (43 # ds @ rest) = to_number (digits_val ds)"
    by (simp add: parseInt_def is_white_space_def)
  from run ds(1) show "parseInt (45 # ds @ rest) = to_number (- digits_val ds)"
    by (simp add: parseInt_def is_white_space_def)
qed

lemma parseInt_no_digit:
  assumes "rest = [] \<or> \<not> is_digit (hd rest)"
  shows "parseInt (43 # rest) = NaN"
    and "parseInt (45 # rest) = NaN"
    and "rest = [] \<or> (\<not> is_white_space (hd rest) \<and> hd rest \<noteq> 43 \<and> hd rest \<noteq> 45) \<Longrightarrow> parseInt rest = NaN"
proof -
  from assms have nil: "takeWhile is_digit rest = []"
    by (cases rest) auto
  then show "parseInt (43 # rest) = NaN" "parseInt (45 # rest) = NaN"
    by (simp_all add: parseInt_def is_white_space_def)
  assume "rest = [] \<or> (\<not> is_white_space (hd rest) \<and> hd rest \<noteq> 43 \<and> hd rest \<noteq> 45)"
  with nil show "parseInt rest = NaN"
    by (cases rest) (auto simp add: parseInt_def)
qed

subsection \<open>The DELETE handler\<close>

lemma DELETE_invalid:
  "isNaN (parseInt (or_empty p)) \<Longrightarrow>
     DELETE_with del p s = (Resolved \<lparr>status = 400, statusText = ''Invalid ID'', body = None\<rparr>, s)"
  by (simp add: DELETE_with_def)

lemma DELETE_valid:
  "\<not> isNaN (parseInt (or_empty p)) \<Longrightarrow>
     DELETE p st = (Resolved \<lparr>status = 200, statusText = [], body = None\<rparr>,
                    snd (deleteTodo (parseInt (or_empty p)) st))"
  by (simp add: DELETE_def DELETE_with_def deleteTodo_def)

lemma to_number_not_NaN: "\<not> isNaN (to_number i)"
  by (simp add: to_number_def isNaN_def split: option.split)

lemma or_empty_Some: "or_empty (Some str) = str"
  by (simp add: or_empty_def)

text \<open>
  309 nines denote an integer above \<open>2^1024\<close>.
\<close>

lemma digits_val_309_nines: "2 ^ 1024 \<le> digits_val (utf16 ''999999999999999999999999999999999999999999999999999999999999999999999999999999999999999999999999999999999999999999999999999999999999999999999999999999999999999999999999999999999999999999999999999999999999999999999999999999999999999999999999999999999999999999999999999999999999999999999999999999999999999999999'')"
  by (simp add: digits_val_def digit_val_def utf16_def)

lemma parseInt_309_nines: "parseInt (utf16 ''999999999999999999999999999999999999999999999999999999999999999999999999999999999999999999999999999999999999999999999999999999999999999999999999999999999999999999999999999999999999999999999999999999999999999999999999999999999999999999999999999999999999999999999999999999999999999999999999999999999999999999999'') = PosInfinity"
proof -
  have "parseInt (utf16 ''999999999999999999999999999999999999999999999999999999999999999999999999999999999999999999999999999999999999999999999999999999999999999999999999999999999999999999999999999999999999999999999999999999999999999999999999999999999999999999999999999999999999999999999999999999999999999999999999999999999999999999999'' @ []) = to_number (digits_val (utf16 ''999999999999999999999999999999999999999999999999999999999999999999999999999999999999999999999999999999999999999999999999999999999999999999999999999999999999999999999999999999999999999999999999999999999999999999999999999999999999999999999999999999999999999999999999999999999999999999999999999999999999999999999''))"
    by (rule parseInt_digits(1)) (simp_all add: utf16_def is_digit_def)
  with to_number_overflow(1) [OF digits_val_309_nines] show ?thesis by simp
qed

text \<open>
  C4: when \<open>parseInt\<close> of the id parameter (the empty string when absent) is \<open>NaN\<close>, the
  handler answers 400 with the status text "Invalid ID" and no body, whatever \<open>deleteTodo\<close>
  it was given, so without calling it, and the array is as before; otherwise it calls
  \<open>deleteTodo\<close> with the number \<open>parseInt\<close> returned and answers 200 with no body.
  Which requests are which: white space, then an optional sign, then at least one digit,
  then anything that does not go on with a digit, is the integer the digits denote, with
  the sign, as a number value; the same without a digit is \<open>NaN\<close>. The number value of an
  integer below \<open>2^53\<close> in magnitude is that integer, from \<open>2^1024\<close> on it is an infinity,
  and in between it is rounded: \<open>2^53 + 1\<close> goes down and \<open>2^53 + 3\<close> goes up. An absent
  parameter and "abc" give 400; "-5", "10", "9007199254740993" and 309 nines give 200,
  the last two after calls with 9007199254740992 and with \<open>Infinity\<close>; deleting an id that
  no record has gives 200.
\<close>

theorem DELETE_parses_then_deletes:
  "(isNaN (parseInt (or_empty p)) \<longrightarrow>
      DELETE_with del p s = (Resolved \<lparr>status = 400, statusText = ''Invalid ID'', body = None\<rparr>, s))
   \<and> (\<forall>n. parseInt (or_empty p) = Num n \<longrightarrow>
        DELETE p st = (Resolved \<lparr>status = 200, statusText = [], body = None\<rparr>, snd (deleteTodo (Num n) st)))
   \<and> (\<not> isNaN (parseInt (or_empty p)) \<longrightarrow>
        DELETE p st = (Resolved \<lparr>status = 200, statusText = [], body = None\<rparr>,
                       snd (deleteTodo (parseInt (or_empty p)) st)))
   \<and> (set ws \<subseteq> {9, 10, 11, 12, 13, 32, 160, 5760} \<union> {8192..8202} \<union> {8232, 8233, 8239, 8287, 12288, 65279}
        \<and> sg \<in> {[], [43], [45]} \<and> (rest = [] \<or> hd rest \<notin> {48..57}) \<longrightarrow>
        (ds \<noteq> [] \<and> set ds \<subseteq> {48..57} \<longrightarrow>
           DELETE (Some (ws @ sg @ ds @ rest)) st =
             (Resolved \<lparr>status = 200, statusText = [], body = None\<rparr>,
              snd (deleteTodo (to_number ((if sg = [45] then - 1 else 1)
                     * foldl (\<lambda>a c. a * 10 + (int c - 48)) 0 ds)) st)))
        \<and> ((sg = [] \<longrightarrow> rest = [] \<or> hd rest \<notin> {9, 10, 11, 12, 13, 32, 160, 5760} \<union> {8192..8202}
                \<union> {8232, 8233, 8239, 8287, 12288, 65279} \<union> {43, 45}) \<longrightarrow>
           DELETE_with del (Some (ws @ sg @ rest)) s =
             (Resolved \<lparr>status = 400, statusText = ''Invalid ID'', body = None\<rparr>, s)))
   \<and> (\<bar>i\<bar> < 2 ^ 53 \<longrightarrow> to_number i = Num i)
   \<and> (2 ^ 1024 \<le> \<bar>i\<bar> \<longrightarrow> to_number i = (if i < 0 then NegInfinity else PosInfinity))
   \<and> to_number 9007199254740993 = Num 9007199254740992
   \<and> to_number 9007199254740994 = Num 9007199254740994
   \<and> to_number 9007199254740995 = Num 9007199254740996
   \<and> DELETE None st = (Resolved \<lparr>status = 400, statusText = ''Invalid ID'', body = None\<rparr>, st)
   \<and> DELETE (Some (utf16 ''abc'')) st = (Resolved \<lparr>status = 400, statusText = ''Invalid ID'', body = None\<rparr>, st)
   \<and> DELETE (Some (utf16 ''-5'')) st =
        (Resolved \<lparr>status = 200, statusText = [], body = None\<rparr>, snd (deleteTodo (Num (- 5)) st))
   \<and> DELETE (Some (utf16 ''10'')) st =
        (Resolved \<lparr>status = 200, statusText = [], body = None\<rparr>, snd (deleteTodo (Num 10) st))
   \<and> DELETE (Some (utf16 ''9007199254740993'')) st =
        (Resolved \<lparr>status = 200, statusText = [], body = None\<rparr>, snd (deleteTodo (Num 9007199254740992) st))
   \<and> DELETE (Some (utf16 ''999999999999999999999999999999999999999999999999999999999999999999999999999999999999999999999999999999999999999999999999999999999999999999999999999999999999999999999999999999999999999999999999999999999999999999999999999999999999999999999999999999999999999999999999999999999999999999999999999999999999999999999'')) st =
        (Resolved \<lparr>status = 200, statusText = [], body = None\<rparr>, snd (deleteTodo PosInfinity st))
   \<and> ((\<forall>todo \<in> set st. id_field todo \<noteq> Num 2) \<longrightarrow>
        DELETE (Some (utf16 ''2'')) st = (Resolved \<lparr>status = 200, statusText = [], body = None\<rparr>, st))"
proof -
  let ?bad = "Resolved \<lparr>status = 400, statusText = ''Invalid ID'', body = None\<rparr>"
  let ?ok = "Resolved \<lparr>status = 200, statusText = [], body = None\<rparr>"
  let ?white = "{9, 10, 11, 12, 13, 32, 160, 5760} \<union> {8192..8202} \<union> {8232, 8233, 8239, 8287, 12288, 65279} :: nat set"
  let ?val = "foldl (\<lambda>a c. a * 10 + (int c - 48)) 0 ds"
  have valid: "parseInt str = x \<Longrightarrow> \<not> isNaN x \<Longrightarrow> DELETE (Some str) st = (?ok, snd (deleteTodo x st))"
    for str x
    using DELETE_valid [of "Some str" st] by (simp add: or_empty_Some)
  have c1: "isNaN (parseInt (or_empty p)) \<longrightarrow> DELETE_with del p s = (?bad, s)"
    by (simp add: DELETE_invalid)
  have c3: "\<not> isNaN (parseInt (or_empty p)) \<longrightarrow>
        DELETE p st = (?ok, snd (deleteTodo (parseInt (or_empty p)) st))"
    by (simp add: DELETE_valid)
  have c2: "\<forall>n. parseInt (or_empty p) = Num n \<longrightarrow> DELETE p st = (?ok, snd (deleteTodo (Num n) st))"
    using c3 by (simp add: isNaN_def)
  have c4: "set ws \<subseteq> ?white \<and> sg \<in> {[], [43], [45]} \<and> (rest = [] \<or> hd rest \<notin> {48..57}) \<longrightarrow>
        (ds \<noteq> [] \<and> set ds \<subseteq> {48..57} \<longrightarrow>
           DELETE (Some (ws @ sg @ ds @ rest)) st =
             (?ok, snd (deleteTodo (to_number ((if sg = [45] then - 1 else 1) * ?val)) st)))
        \<and> ((sg = [] \<longrightarrow> rest = [] \<or> hd rest \<notin> ?white \<union> {43, 45}) \<longrightarrow>
           DELETE_with del (Some (ws @ sg @ rest)) s = (?bad, s))"
  proof (intro impI conjI; elim conjE)
    assume ws: "set ws \<subseteq> ?white" and sg: "sg \<in> {[], [43], [45]}"
      and rest: "rest = [] \<or> hd rest \<notin> {48..57}"
    from ws have white: "\<forall>c \<in> set ws. is_white_space c"
      unfolding is_white_space_iff by blast
    from rest have rest': "rest = [] \<or> \<not> is_digit (hd rest)"
      by (simp add: is_digit_iff)
    {
      assume ds: "ds \<noteq> []" "set ds \<subseteq> {48..57}"
      then have digits: "\<forall>c \<in> set ds. is_digit c"
        unfolding is_digit_iff by blast
      have v: "digits_val ds = ?val"
        by (simp add: digits_val_def digit_val_def)
      have "parseInt (sg @ ds @ rest) = to_number ((if sg = [45] then - 1 else 1) * ?val)"
        using sg parseInt_digits [OF ds(1) digits rest'] by (auto simp add: v)
      then have "parseInt (ws @ sg @ ds @ rest) = to_number ((if sg = [45] then - 1 else 1) * ?val)"
        by (simp add: parseInt_after_white_space [OF white])
      then show "DELETE (Some (ws @ sg @ ds @ rest)) st =
             (?ok, snd (deleteTodo (to_number ((if sg = [45] then - 1 else 1) * ?val)) st))"
        by (rule valid) (rule to_number_not_NaN)
    }
    {
      assume plain: "sg = [] \<longrightarrow> rest = [] \<or> hd rest \<notin> ?white \<union> {43, 45}"
      then have plain': "sg = [] \<Longrightarrow> rest = [] \<or> (\<not> is_white_space (hd rest) \<and> hd rest \<noteq> 43 \<and> hd rest \<noteq> 45)"
        unfolding is_white_space_iff by blast
      have "parseInt (sg @ rest) = NaN"
        using sg parseInt_no_digit [OF rest'] plain' by auto
      then have "parseInt (ws @ sg @ rest) = NaN"
        by (simp add: parseInt_after_white_space [OF white])
      then have "isNaN (parseInt (or_empty (Some (ws @ sg @ rest))))"
        by (simp add: or_empty_Some isNaN_def)
      then show "DELETE_with del (Some (ws @ sg @ rest)) s = (?bad, s)"
        by (rule DELETE_invalid)
    }
  qed
  have c5: "\<bar>i\<bar> < 2 ^ 53 \<longrightarrow> to_number i = Num i"
    using to_number_exact by blast
  have c6: "2 ^ 1024 \<le> \<bar>i\<bar> \<longrightarrow> to_number i = (if i < 0 then NegInfinity else PosInfinity)"
    using to_number_overflow [of i] by (simp add: abs_if split: if_splits)
  have c7: "to_number 9007199254740993 = Num 9007199254740992"
    by (simp add: to_number_def round_double_def bit_length.simps)
  have c8: "to_number 9007199254740994 = Num 9007199254740994"
    by (simp add: to_number_def round_double_def bit_length.simps)
  have c9: "to_number 9007199254740995 = Num 9007199254740996"
    by (simp add: to_number_def round_double_def bit_length.simps)
  have "isNaN (parseInt (or_empty None))"
    by (simp add: parse_defs isNaN_def)
  then have c10: "DELETE None st = (?bad, st)"
    unfolding DELETE_def by (rule DELETE_invalid)
  have "isNaN (parseInt (or_empty (Some (utf16 ''abc''))))"
    by (simp add: parse_defs isNaN_def)
  then have c11: "DELETE (Some (utf16 ''abc'')) st = (?bad, st)"
    unfolding DELETE_def by (rule DELETE_invalid)
  have "parseInt (utf16 ''-5'') = Num (- 5)"
    by (simp add: parse_defs)
  then have c12: "DELETE (Some (utf16 ''-5'')) st = (?ok, snd (deleteTodo (Num (- 5)) st))"
    by (rule valid) (simp add: isNaN_def)
  have "parseInt (utf16 ''10'') = Num 10"
    by (simp add: parse_defs)
  then have c13: "DELETE (Some (utf16 ''10'')) st = (?ok, snd (deleteTodo (Num 10) st))"
    by (rule valid) (simp add: isNaN_def)
  have "parseInt (utf16 ''9007199254740993'') = Num 9007199254740992"
    by (simp add: parse_defs bit_length.simps)
  then have c14: "DELETE (Some (utf16 ''9007199254740993'')) st = (?ok, snd (deleteTodo (Num 9007199254740992) st))"
    by (rule valid) (simp add: isNaN_def)
  have c15: "DELETE (Some (utf16 ''999999999999999999999999999999999999999999999999999999999999999999999999999999999999999999999999999999999999999999999999999999999999999999999999999999999999999999999999999999999999999999999999999999999999999999999999999999999999999999999999999999999999999999999999999999999999999999999999999999999999999999999'')) st = (?ok, snd (deleteTodo PosInfinity st))"
    using parseInt_309_nines by (rule valid) (simp add: isNaN_def)
  have "parseInt (utf16 ''2'') = Num 2"
    by (simp add: parse_defs)
  then have "DELETE (Some (utf16 ''2'')) st = (?ok, snd (deleteTodo (Num 2) st))"
    by (rule valid) (simp add: isNaN_def)
  then have c16: "(\<forall>todo \<in> set st. id_field todo \<noteq> Num 2) \<longrightarrow> DELETE (Some (utf16 ''2'')) st = (?ok, st)"
    by (simp add: deleteTodo_def strict_neq_Num)
  show ?thesis
    by (intro conjI c1 c2 c3 c4 c5 c6 c7 c8 c9 c10 c11 c12 c13 c14 c15 c16)
qed

theorem DELETE_parses_then_deletes_witness:
  "isNaN (parseInt (or_empty (Some (utf16 ''x9''))))
   \<and> DELETE_with deleteTodo (Some (utf16 ''x9'')) todosData
       = (Resolved \<lparr>status = 400, statusText = ''Invalid ID'', body = None\<rparr>, todosData)
   \<and> parseInt (or_empty (Some (utf16 ''3''))) = Num 3
   \<and> DELETE (Some (utf16 ''3'')) todosData
       = (Resolved \<lparr>status = 200, statusText = [], body = None\<rparr>,
          [\<lparr>id_field = Num 1, text_field = ''Learn Kung Fu'', completed = False\<rparr>,
           \<lparr>id_field = Num 2, text_field = ''Watch Westminster'', completed = True\<rparr>])
   \<and> DELETE (Some (utf16 '' -2px'')) todosData
       = (Resolved \<lparr>status = 200, statusText = [], body = None\<rparr>, todosData)
   \<and> DELETE (Some (utf16 '' +2px'')) todosData
       = (Resolved \<lparr>status = 200, statusText = [], body = None\<rparr>,
          [\<lparr>id_field = Num 1, text_field = ''Learn Kung Fu'', completed = False\<rparr>,
           \<lparr>id_field = Num 3, text_field = ''Study Vedanta'', completed = False\<rparr>])
   \<and> DELETE_with deleteTodo (Some (utf16 '' -px'')) todosData
       = (Resolved \<lparr>status = 400, statusText = ''Invalid ID'', body = None\<rparr>, todosData)
   \<and> DELETE_with deleteTodo (Some (utf16 ''px2'')) todosData
       = (Resolved \<lparr>status = 400, statusText = ''Invalid ID'', body = None\<rparr>, todosData)
   \<and> to_number 7 = Num 7
   \<and> to_number (- (2 ^ 1024)) = NegInfinity
   \<and> Num 2 \<notin> set (map id_field [\<lparr>id_field = Num 1, text_field = ''a'', completed = False\<rparr>])
   \<and> DELETE (Some (utf16 ''2'')) [\<lparr>id_field = Num 1, text_field = ''a'', completed = False\<rparr>]
       = (Resolved \<lparr>status = 200, statusText = [], body = None\<rparr>,
          [\<lparr>id_field = Num 1, text_field = ''a'', completed = False\<rparr>])"
proof -
  note t1 = DELETE_parses_then_deletes [where p = "Some (utf16 ''x9'')" and del = deleteTodo
      and s = todosData and st = todosData and ws = "[32]" and sg = "[45]" and ds = "[50]"
      and rest = "utf16 ''px''" and i = 7]
  note t2 = DELETE_parses_then_deletes [where p = "Some (utf16 ''3'')" and del = deleteTodo
      and s = todosData and st = todosData and ws = "[32]" and sg = "[43]" and ds = "[50]"
      and rest = "utf16 ''px''" and i = "- (2 ^ 1024)"]
  note t3 = DELETE_parses_then_deletes [where p = None and del = deleteTodo
      and s = todosData and st = "[\<lparr>id_field = Num 1, text_field = ''a'', completed = False\<rparr>]"
      and ws = "[]" and sg = "[]" and ds = "[50]" and rest = "utf16 ''px2''" and i = 0]
  have a: "isNaN (parseInt (or_empty (Some (utf16 ''x9''))))"
    by (simp add: parse_defs isNaN_def)
  have b: "parseInt (or_empty (Some (utf16 ''3''))) = Num 3"
    by (simp add: parse_defs)
  have d3: "snd (deleteTodo (Num 3) todosData) =
          [\<lparr>id_field = Num 1, text_field = ''Learn Kung Fu'', completed = False\<rparr>,
           \<lparr>id_field = Num 2, text_field = ''Watch Westminster'', completed = True\<rparr>]"
    by (simp add: deleteTodo_def todosData_def strict_neq_def)
  have d2: "snd (deleteTodo (Num 2) todosData) =
          [\<lparr>id_field = Num 1, text_field = ''Learn Kung Fu'', completed = False\<rparr>,
           \<lparr>id_field = Num 3, text_field = ''Study Vedanta'', completed = False\<rparr>]"
    by (simp add: deleteTodo_def todosData_def strict_neq_def)
  have dm: "snd (deleteTodo (Num (- 2)) todosData) = todosData"
    by (simp add: deleteTodo_def todosData_def strict_neq_def)
  have n7: "to_number 7 = Num 7" using t1 by simp
  have ninf: "to_number (- (2 ^ 1024)) = NegInfinity" using t2 by simp
  have nm2: "to_number (- 2) = Num (- 2)" and n2: "to_number 2 = Num 2"
    by (simp_all add: to_number_def round_double_def)
  have x9: "DELETE_with deleteTodo (Some (utf16 ''x9'')) todosData
       = (Resolved \<lparr>status = 400, statusText = ''Invalid ID'', body = None\<rparr>, todosData)"
    using t1 a by blast
  have three: "DELETE (Some (utf16 ''3'')) todosData
       = (Resolved \<lparr>status = 200, statusText = [], body = None\<rparr>, snd (deleteTodo (Num 3) todosData))"
    using t2 b by blast
  have m2px: "DELETE (Some (utf16 '' -2px'')) todosData
       = (Resolved \<lparr>status = 200, statusText = [], body = None\<rparr>, snd (deleteTodo (to_number (- 2)) todosData))"
    using t1 by (simp add: utf16_def)
  have p2px: "DELETE (Some (utf16 '' +2px'')) todosData
       = (Resolved \<lparr>status = 200, statusText = [], body = None\<rparr>, snd (deleteTodo (to_number 2) todosData))"
    using t2 by (simp add: utf16_def)
  have mpx: "DELETE_with deleteTodo (Some (utf16 '' -px'')) todosData
       = (Resolved \<lparr>status = 400, statusText = ''Invalid ID'', body = None\<rparr>, todosData)"
    using t1 by (simp add: utf16_def)
  have px2: "DELETE_with deleteTodo (Some (utf16 ''px2'')) todosData
       = (Resolved \<lparr>status = 400, statusText = ''Invalid ID'', body = None\<rparr>, todosData)"
    using t3 by (simp add: utf16_def)
  have absent: "DELETE (Some (utf16 ''2'')) [\<lparr>id_field = Num 1, text_field = ''a'', completed = False\<rparr>]
       = (Resolved \<lparr>status = 200, statusText = [], body = None\<rparr>,
          [\<lparr>id_field = Num 1, text_field = ''a'', completed = False\<rparr>])"
    using t3 by simp
  show ?thesis
    using a b x9 three m2px p2px mpx px2 n7 ninf absent
    by (simp add: d2 d3 dm nm2 n2)
qed

text \<open>
  C10: "2abc" and "2.9" are not integer literals, yet \<open>parseInt\<close> reads their prefix 2: the
  handler calls \<open>deleteTodo\<close> with 2 and answers 200.
\<close>

theorem DELETE_accepts_integer_prefix:
  "parseInt (or_empty (Some (utf16 ''2abc''))) = Num 2
   \<and> parseInt (or_empty (Some (utf16 ''2.9''))) = Num 2
   \<and> DELETE (Some (utf16 ''2abc'')) s = (Resolved \<lparr>status = 200, statusText = [], body = None\<rparr>, snd (deleteTodo (Num 2) s))
   \<and> DELETE (Some (utf16 ''2.9'')) s = (Resolved \<lparr>status = 200, statusText = [], body = None\<rparr>, snd (deleteTodo (Num 2) s))
   \<and> snd (DELETE (Some (utf16 ''2abc'')) todosData) =
       [\<lparr>id_field = Num 1, text_field = ''Learn Kung Fu'', completed = False\<rparr>,
        \<lparr>id_field = Num 3, text_field = ''Study Vedanta'', completed = False\<rparr>]"
proof -
  have a: "parseInt (or_empty (Some (utf16 ''2abc''))) = Num 2"
    by (simp add: parse_defs)
  have b: "parseInt (or_empty (Some (utf16 ''2.9''))) = Num 2"
    by (simp add: parse_defs)
  have c: "DELETE (Some (utf16 ''2abc'')) s = (Resolved \<lparr>status = 200, statusText = [], body = None\<rparr>, snd (deleteTodo (Num 2) s))" for s
    by (simp add: DELETE_def DELETE_with_def a isNaN_def deleteTodo_def)
  have d: "DELETE (Some (utf16 ''2.9'')) s = (Resolved \<lparr>status = 200, statusText = [], body = None\<rparr>, snd (deleteTodo (Num 2) s))"
    by (simp add: DELETE_def DELETE_with_def b isNaN_def deleteTodo_def)
  have e: "snd (deleteTodo (Num 2) todosData) =
       [\<lparr>id_field = Num 1, text_field = ''Learn Kung Fu'', completed = False\<rparr>,
        \<lparr>id_field = Num 3, text_field = ''Study Vedanta'', completed = False\<rparr>]"
    by (simp add: deleteTodo_def todosData_def strict_neq_def)
  show ?thesis using a b c d e by simp
qed

end
